theory Spec2Isabelle
  imports Main
begin

section \<open>Python values and their textual forms\<close>

text \<open>
  The adapter in \<^verbatim>\<open>server.py\<close> passes values through without looking at them: tool
  arguments arrive as JSON values, client results are arbitrary serialisable values. They
  are modelled by one datatype of Python values (floating point numbers are left out).
  A dictionary is an association list in insertion order. Characters are code points
  below 256.
\<close>

datatype pyval =
    PNone
  | PBool bool
  | PInt int
  | PStr string
  | PList "pyval list"
  | PDict "(pyval \<times> pyval) list"

text \<open>\<^verbatim>\<open>sep.join(xs)\<close>\<close>

fun join :: "string \<Rightarrow> string list \<Rightarrow> string" where
  "join sep [] = []"
| "join sep [x] = x"
| "join sep (x # y # ys) = x @ sep @ join sep (y # ys)"

text \<open>Decimal rendering of integers, as \<^verbatim>\<open>str(int)\<close> does.\<close>

definition digit_char :: "nat \<Rightarrow> char" where
  "digit_char d = char_of (of_char CHR ''0'' + d)"

fun show_nat :: "nat \<Rightarrow> string" where
  "show_nat n = (if n < 10 then [digit_char n] else show_nat (n div 10) @ [digit_char (n mod 10)])"

declare show_nat.simps [simp del]

definition show_int :: "int \<Rightarrow> string" where
  "show_int i = (if i < 0 then CHR ''-'' # show_nat (nat (- i)) else show_nat (nat i))"

text \<open>
  \<^verbatim>\<open>repr\<close> of a string: double quotes are chosen when the string holds a single quote
  and no double quote, single quotes otherwise; the backslash, the chosen quote, tab,
  newline and carriage return are escaped by a backslash, every other character that
  is not printable by \<^verbatim>\<open>\xNN\<close>.
\<close>

definition hex_digit :: "nat \<Rightarrow> char" where
  "hex_digit d = (if d < 10 then digit_char d else char_of (of_char CHR ''a'' + (d - 10)))"

definition printable :: "char \<Rightarrow> bool" where
  "printable c = (let n = (of_char c :: nat) in
     (32 \<le> n \<and> n < 127) \<or> (161 \<le> n \<and> n \<noteq> 173))"

definition escape_char :: "char \<Rightarrow> char \<Rightarrow> string" where
  "escape_char quote c =
     (if c = quote \<or> c = CHR 0x5C then [CHR 0x5C, c]
      else if c = CHR 0x09 then [CHR 0x5C, CHR ''t'']
      else if c = CHR 0x0A then [CHR 0x5C, CHR ''n'']
      else if c = CHR 0x0D then [CHR 0x5C, CHR ''r'']
      else if printable c then [c]
      else [CHR 0x5C, CHR ''x'', hex_digit ((of_char c :: nat) div 16),
            hex_digit ((of_char c :: nat) mod 16)])"

definition repr_str :: "string \<Rightarrow> string" where
  "repr_str s =
     (let quote = (if CHR 0x27 \<in> set s \<and> CHR 0x22 \<notin> set s then CHR 0x22 else CHR 0x27)
      in quote # concat (map (escape_char quote) s) @ [quote])"

primrec py_repr :: "pyval \<Rightarrow> string" where
  "py_repr PNone = ''None''"
| "py_repr (PBool b) = (if b then ''True'' else ''False'')"
| "py_repr (PInt i) = show_int i"
| "py_repr (PStr s) = repr_str s"
| "py_repr (PList xs) = ''['' @ join '', '' (map py_repr xs) @ '']''"
| "py_repr (PDict kvs) =
     ''{'' @ join '', '' (map (\<lambda>(k, v). k @ '': '' @ v) (map (map_prod py_repr py_repr) kvs)) @ ''}''"

text \<open>\<^verbatim>\<open>str(v)\<close>, also what an f-string puts for \<^verbatim>\<open>{v}\<close>: a string is itself, every
  other value is its \<^verbatim>\<open>repr\<close>.\<close>

fun py_str :: "pyval \<Rightarrow> string" where
  "py_str (PStr s) = s"
| "py_str v = py_repr v"

text \<open>\<^verbatim>\<open>repr\<close> of the tuple of positional arguments and of the dictionary of keyword
  arguments, as the helper's first log line prints them.\<close>

fun repr_tuple :: "pyval list \<Rightarrow> string" where
  "repr_tuple [] = ''()''"
| "repr_tuple [x] = ''('' @ py_repr x @ '',)''"
| "repr_tuple xs = ''('' @ join '', '' (map py_repr xs) @ '')''"

definition repr_kwargs :: "(string \<times> pyval) list \<Rightarrow> string" where
  "repr_kwargs kw = py_repr (PDict (map (\<lambda>(k, v). (PStr k, v)) kw))"

text \<open>\<^verbatim>\<open>sub in s\<close> on strings.\<close>

fun starts_with :: "string \<Rightarrow> string \<Rightarrow> bool" where
  "starts_with s [] = True"
| "starts_with [] (p # ps) = False"
| "starts_with (c # s) (p # ps) = (c = p \<and> starts_with s ps)"

fun substring :: "string \<Rightarrow> string \<Rightarrow> bool" where
  "substring sub [] = (sub = [])"
| "substring sub (c # s) = (starts_with (c # s) sub \<or> substring sub s)"

section \<open>The \<^verbatim>\<open>dict\<close> constructor\<close>

text \<open>
  \<^verbatim>\<open>create_cluster\<close> builds its argument with \<^verbatim>\<open>dict(cluster_name, base_dns_domain=..., ...)\<close>:
  the first positional argument of \<^verbatim>\<open>dict\<close> is a mapping to copy or an iterable of
  key/value pairs, and the keyword arguments are stored afterwards. A fault (an instance
  of \<^verbatim>\<open>Exception\<close>) is either \<^verbatim>\<open>asyncio.TimeoutError\<close> or of any other class, given
  by its name; it carries the text that \<^verbatim>\<open>str(e)\<close> gives. The exit signals of the
  interpreter, which derive from \<^verbatim>\<open>BaseException\<close> only, are not faults.
\<close>

datatype fault =
    AsyncioTimeout string
  | OtherException string string

fun fault_message :: "fault \<Rightarrow> string" where
  "fault_message (AsyncioTimeout m) = m"
| "fault_message (OtherException cls m) = m"

fun type_name :: "pyval \<Rightarrow> string" where
  "type_name PNone = ''NoneType''"
| "type_name (PBool b) = ''bool''"
| "type_name (PInt i) = ''int''"
| "type_name (PStr s) = ''str''"
| "type_name (PList xs) = ''list''"
| "type_name (PDict kvs) = ''dict''"

fun hashable :: "pyval \<Rightarrow> bool" where
  "hashable (PList xs) = False"
| "hashable (PDict kvs) = False"
| "hashable v = True"

text \<open>Keys are compared with \<^verbatim>\<open>==\<close>, under which \<^verbatim>\<open>True == 1\<close> and \<^verbatim>\<open>False == 0\<close>.\<close>

fun key_eq :: "pyval \<Rightarrow> pyval \<Rightarrow> bool" where
  "key_eq (PBool b) (PInt i) = (i = (if b then 1 else 0))"
| "key_eq (PInt i) (PBool b) = (i = (if b then 1 else 0))"
| "key_eq a b = (a = b)"

text \<open>\<^verbatim>\<open>d[k] = v\<close>: an existing key keeps its place and its key object.\<close>

fun dict_set :: "(pyval \<times> pyval) list \<Rightarrow> pyval \<Rightarrow> pyval \<Rightarrow> (pyval \<times> pyval) list" where
  "dict_set [] k v = [(k, v)]"
| "dict_set ((k', v') # d) k v =
     (if key_eq k' k then (k', v) # d else (k', v') # dict_set d k v)"

text \<open>The elements a value yields when iterated; \<open>None\<close> when it is not iterable.\<close>

fun seq_items :: "pyval \<Rightarrow> pyval list option" where
  "seq_items (PStr s) = Some (map (\<lambda>c. PStr [c]) s)"
| "seq_items (PList xs) = Some xs"
| "seq_items (PDict kvs) = Some (map fst kvs)"
| "seq_items v = None"

text \<open>Filling a dictionary from a sequence of pairs; \<open>i\<close> counts the elements for the
  fault message.\<close>

fun merge_seq2 :: "nat \<Rightarrow> (pyval \<times> pyval) list \<Rightarrow> pyval list \<Rightarrow> fault + (pyval \<times> pyval) list" where
  "merge_seq2 i d [] = Inr d"
| "merge_seq2 i d (x # xs) =
     (case seq_items x of
        None \<Rightarrow> Inl (OtherException ''TypeError''
          (''cannot convert dictionary update sequence element #'' @ show_nat i @ '' to a sequence''))
      | Some [k, v] \<Rightarrow>
          if hashable k then merge_seq2 (Suc i) (dict_set d k v) xs
          else Inl (OtherException ''TypeError'' (''unhashable type: '' @ repr_str (type_name k)))
      | Some ys \<Rightarrow> Inl (OtherException ''ValueError''
          (''dictionary update sequence element #'' @ show_nat i @ '' has length ''
            @ show_nat (length ys) @ ''; 2 is required'')))"

definition py_dict :: "pyval \<Rightarrow> (string \<times> pyval) list \<Rightarrow> fault + pyval" where
  "py_dict x kw =
     (case (case x of
              PDict kvs \<Rightarrow> Inr (foldl (\<lambda>d (k, v). dict_set d k v) [] kvs)
            | _ \<Rightarrow> (case seq_items x of
                      None \<Rightarrow> Inl (OtherException ''TypeError''
                        (repr_str (type_name x) @ '' object is not iterable''))
                    | Some items \<Rightarrow> merge_seq2 0 [] items)) of
        Inl f \<Rightarrow> Inl f
      | Inr d \<Rightarrow> Inr (PDict (foldl (\<lambda>d (k, v). dict_set d (PStr k) v) d kw)))"

section \<open>The adapter\<close>

text \<open>
  The client object \<^verbatim>\<open>ai\<close> is external: a stub decides, for each call of one of its
  methods, whether the call returns a value or raises a fault. What an invocation does
  besides returning is recorded as a list of effects, in order: the log lines written
  and the client calls made.
\<close>

datatype client_call =
  Call (call_method: string) (call_args: "pyval list") (call_kwargs: "(string \<times> pyval) list")

datatype level = INFO | ERROR

datatype effect = Log level string | ClientCall client_call

type_synonym client = "client_call \<Rightarrow> fault + pyval"

type_synonym outcome = "effect list \<times> (fault + string)"

text \<open>\<^verbatim>\<open>logger.info(msg)\<close> followed by the rest of the function body.\<close>

fun logger_info :: "string \<Rightarrow> outcome \<Rightarrow> outcome" where
  "logger_info msg (effs, r) = (Log INFO msg # effs, r)"

definition handle_api_call :: "client \<Rightarrow> string \<Rightarrow> pyval list \<Rightarrow> (string \<times> pyval) list \<Rightarrow> outcome" where
  "handle_api_call client func args kwargs =
     (let started = [Log INFO (''Calling '' @ func @ '' with args: '' @ repr_tuple args
                       @ '', kwargs: '' @ repr_kwargs kwargs),
                     ClientCall (Call func args kwargs)]
      in case client (Call func args kwargs) of
           Inr result \<Rightarrow>
             (started @ [Log INFO (''result is: '' @ py_str result)], Inr (py_str result))
         | Inl (AsyncioTimeout m) \<Rightarrow>
             (started @ [Log ERROR ''Operation timed out''], Inr ''Operation timed out'')
         | Inl (OtherException cls m) \<Rightarrow>
             (started @ [Log ERROR (''Unexpected error in '' @ func @ '': '' @ m)],
              Inr (''Unexpected error in '' @ func @ '': '' @ m)))"

definition list_clusters :: "client \<Rightarrow> outcome" where
  "list_clusters client =
     logger_info ''Listing clusters'' (handle_api_call client ''list_clusters'' [] [])"

definition list_events :: "client \<Rightarrow> pyval \<Rightarrow> outcome" where
  "list_events client cluster_name =
     logger_info (''Listing events for cluster: '' @ py_str cluster_name)
       (handle_api_call client ''list_events'' [cluster_name] [])"

definition list_manifests :: "client \<Rightarrow> pyval \<Rightarrow> outcome" where
  "list_manifests client cluster_name =
     logger_info (''Listing manifests for cluster: '' @ py_str cluster_name)
       (handle_api_call client ''list_manifests'' [cluster_name] [])"

text \<open>The dictionary is built while the arguments of \<^verbatim>\<open>handle_api_call\<close> are evaluated,
  so before the helper and its \<^verbatim>\<open>try\<close> are entered: a fault of \<^verbatim>\<open>dict\<close> leaves the
  function.\<close>

definition create_cluster ::
  "client \<Rightarrow> pyval \<Rightarrow> pyval \<Rightarrow> pyval \<Rightarrow> pyval \<Rightarrow> pyval \<Rightarrow> pyval \<Rightarrow> pyval \<Rightarrow> outcome" where
  "create_cluster client cluster_name high_availability_mode openshift_version base_dns_domain
       cluster_network_cidr pull_secret ssh_public_key =
     logger_info (''Creating cluster: '' @ py_str cluster_name
         @ '', base_dns_domain: '' @ py_str base_dns_domain
         @ '', version: '' @ py_str openshift_version
         @ '', high_availability_mode: '' @ py_str high_availability_mode)
       (case py_dict cluster_name
               [(''base_dns_domain'', base_dns_domain),
                (''openshift_version'', openshift_version),
                (''high_availability_mode'', high_availability_mode)] of
          Inl f \<Rightarrow> ([], Inl f)
        | Inr overrides \<Rightarrow> handle_api_call client ''create_cluster'' [] [(''overrides'', overrides)])"

definition delete_cluster :: "client \<Rightarrow> pyval \<Rightarrow> outcome" where
  "delete_cluster client cluster_name =
     logger_info (''Deleting cluster: '' @ py_str cluster_name)
       (handle_api_call client ''delete_cluster'' [cluster_name] [])"

definition cluster_info :: "client \<Rightarrow> pyval \<Rightarrow> outcome" where
  "cluster_info client cluster_name =
     logger_info (''Getting info for cluster: '' @ py_str cluster_name)
       (handle_api_call client ''get_cluster'' [cluster_name] [])"

definition update_cluster :: "client \<Rightarrow> pyval \<Rightarrow> outcome" where
  "update_cluster client cluster_name =
     logger_info (''Updating cluster: '' @ py_str cluster_name)
       (handle_api_call client ''update_cluster'' [cluster_name] [])"

definition create_manifests :: "client \<Rightarrow> pyval \<Rightarrow> pyval \<Rightarrow> pyval \<Rightarrow> outcome" where
  "create_manifests client cluster_name directory openshift =
     logger_info (''Creating manifests for cluster: '' @ py_str cluster_name)
       (handle_api_call client ''upload_manifests'' [cluster_name, directory]
          [(''openshift'', PBool False)])"

definition delete_manifests :: "client \<Rightarrow> pyval \<Rightarrow> outcome" where
  "delete_manifests client cluster_name =
     logger_info (''Deleting manifests for cluster: '' @ py_str cluster_name)
       (handle_api_call client ''delete_manifests'' [cluster_name] [])"

section \<open>The registered tools and how they are called\<close>

text \<open>
  Each function decorated with \<^verbatim>\<open>@mcp.tool(description=...)\<close> is registered under its own
  name. A parameter is a name with its default, if it has one.
\<close>

datatype tool =
    ListClusters
  | ListEvents
  | ListManifests
  | CreateCluster
  | DeleteCluster
  | ClusterInfo
  | UpdateCluster
  | CreateManifests
  | DeleteManifests

datatype param = Param (param_name: string) (param_default: "pyval option")

fun tool_name :: "tool \<Rightarrow> string" where
  "tool_name ListClusters = ''list_clusters''"
| "tool_name ListEvents = ''list_events''"
| "tool_name ListManifests = ''list_manifests''"
| "tool_name CreateCluster = ''create_cluster''"
| "tool_name DeleteCluster = ''delete_cluster''"
| "tool_name ClusterInfo = ''cluster_info''"
| "tool_name UpdateCluster = ''update_cluster''"
| "tool_name CreateManifests = ''create_manifests''"
| "tool_name DeleteManifests = ''delete_manifests''"

fun tool_description :: "tool \<Rightarrow> string" where
  "tool_description ListClusters = ''list openshift clusters''"
| "tool_description ListEvents = ''list openshift cluster events''"
| "tool_description ListManifests = ''list openshift cluster manifests''"
| "tool_description CreateCluster = ''create a new openshift cluster''"
| "tool_description DeleteCluster = ''delete an openshift cluster''"
| "tool_description ClusterInfo = ''get information about an openshift cluster''"
| "tool_description UpdateCluster = ''update an openshift cluster''"
| "tool_description CreateManifests = ''create manifests for an openshift cluster''"
| "tool_description DeleteManifests = ''delete manifests for an openshift cluster''"

fun tool_params :: "tool \<Rightarrow> param list" where
  "tool_params ListClusters = []"
| "tool_params ListEvents = [Param ''cluster_name'' None]"
| "tool_params ListManifests = [Param ''cluster_name'' None]"
| "tool_params CreateCluster =
     [Param ''cluster_name'' (Some PNone),
      Param ''high_availability_mode'' (Some (PStr ''Full'')),
      Param ''openshift_version'' (Some PNone),
      Param ''base_dns_domain'' (Some PNone),
      Param ''cluster_network_cidr'' (Some (PStr ''10.128.0.0/14'')),
      Param ''pull_secret'' (Some PNone),
      Param ''ssh_public_key'' (Some PNone)]"
| "tool_params DeleteCluster = [Param ''cluster_name'' None]"
| "tool_params ClusterInfo = [Param ''cluster_name'' None]"
| "tool_params UpdateCluster = [Param ''cluster_name'' None]"
| "tool_params CreateManifests =
     [Param ''cluster_name'' None, Param ''directory'' None, Param ''openshift'' (Some (PBool False))]"
| "tool_params DeleteManifests = [Param ''cluster_name'' None]"

text \<open>The method of the client that each tool hands to \<^verbatim>\<open>handle_api_call\<close>.\<close>

fun client_method :: "tool \<Rightarrow> string" where
  "client_method ListClusters = ''list_clusters''"
| "client_method ListEvents = ''list_events''"
| "client_method ListManifests = ''list_manifests''"
| "client_method CreateCluster = ''create_cluster''"
| "client_method DeleteCluster = ''delete_cluster''"
| "client_method ClusterInfo = ''get_cluster''"
| "client_method UpdateCluster = ''update_cluster''"
| "client_method CreateManifests = ''upload_manifests''"
| "client_method DeleteManifests = ''delete_manifests''"

text \<open>The tools in the order in which the module registers them.\<close>

definition registered_tools :: "tool list" where
  "registered_tools =
     [ListClusters, ListEvents, ListManifests, CreateCluster, DeleteCluster, ClusterInfo,
      UpdateCluster, CreateManifests, DeleteManifests]"

text \<open>
  A tool is invoked with arguments given by name. Python binds them to the parameters of
  the function: a name that is no parameter and a parameter left without a value are a
  \<^verbatim>\<open>TypeError\<close> of the call itself, an omitted parameter with a default takes it.
\<close>

fun missing_text :: "string list \<Rightarrow> string" where
  "missing_text [a] = ''1 required positional argument: '' @ repr_str a"
| "missing_text [a, b] = ''2 required positional arguments: '' @ repr_str a @ '' and '' @ repr_str b"
| "missing_text names =
     show_nat (length names) @ '' required positional arguments: ''
       @ join '', '' (map repr_str (butlast names)) @ '', and '' @ repr_str (last names)"

definition bind_args :: "string \<Rightarrow> param list \<Rightarrow> (string \<times> pyval) list \<Rightarrow> fault + pyval list" where
  "bind_args fname ps kw =
     (case filter (\<lambda>k. k \<notin> set (map param_name ps)) (map fst kw) of
        k # ks \<Rightarrow> Inl (OtherException ''TypeError''
          (fname @ ''() got an unexpected keyword argument '' @ repr_str k))
      | [] \<Rightarrow>
          (case those (map (\<lambda>p. case map_of kw (param_name p) of
                                   Some v \<Rightarrow> Some v
                                 | None \<Rightarrow> param_default p) ps) of
             Some vs \<Rightarrow> Inr vs
           | None \<Rightarrow> Inl (OtherException ''TypeError''
               (fname @ ''() missing '' @ missing_text
                  (map param_name (filter (\<lambda>p. map_of kw (param_name p) = None
                                               \<and> param_default p = None) ps))))))"

text \<open>The body of each tool applied to the values of its parameters, in their order.
  The binding yields one value for each parameter, so the numbers always agree.\<close>

definition arity_mismatch :: "tool \<Rightarrow> outcome" where
  "arity_mismatch t =
     ([], Inl (OtherException ''TypeError'' (tool_name t @ ''() argument count mismatch'')))"

fun apply_tool :: "client \<Rightarrow> tool \<Rightarrow> pyval list \<Rightarrow> outcome" where
  "apply_tool client ListClusters vs =
     (case vs of [] \<Rightarrow> list_clusters client | _ \<Rightarrow> arity_mismatch ListClusters)"
| "apply_tool client ListEvents vs =
     (case vs of [cluster_name] \<Rightarrow> list_events client cluster_name
      | _ \<Rightarrow> arity_mismatch ListEvents)"
| "apply_tool client ListManifests vs =
     (case vs of [cluster_name] \<Rightarrow> list_manifests client cluster_name
      | _ \<Rightarrow> arity_mismatch ListManifests)"
| "apply_tool client CreateCluster vs =
     (case vs of
        [cluster_name, high_availability_mode, openshift_version, base_dns_domain,
         cluster_network_cidr, pull_secret, ssh_public_key] \<Rightarrow>
          create_cluster client cluster_name high_availability_mode openshift_version
            base_dns_domain cluster_network_cidr pull_secret ssh_public_key
      | _ \<Rightarrow> arity_mismatch CreateCluster)"
| "apply_tool client DeleteCluster vs =
     (case vs of [cluster_name] \<Rightarrow> delete_cluster client cluster_name
      | _ \<Rightarrow> arity_mismatch DeleteCluster)"
| "apply_tool client ClusterInfo vs =
     (case vs of [cluster_name] \<Rightarrow> cluster_info client cluster_name
      | _ \<Rightarrow> arity_mismatch ClusterInfo)"
| "apply_tool client UpdateCluster vs =
     (case vs of [cluster_name] \<Rightarrow> update_cluster client cluster_name
      | _ \<Rightarrow> arity_mismatch UpdateCluster)"
| "apply_tool client CreateManifests vs =
     (case vs of [cluster_name, directory, openshift] \<Rightarrow>
          create_manifests client cluster_name directory openshift
      | _ \<Rightarrow> arity_mismatch CreateManifests)"
| "apply_tool client DeleteManifests vs =
     (case vs of [cluster_name] \<Rightarrow> delete_manifests client cluster_name
      | _ \<Rightarrow> arity_mismatch DeleteManifests)"

definition call_tool :: "client \<Rightarrow> tool \<Rightarrow> (string \<times> pyval) list \<Rightarrow> outcome" where
  "call_tool client t kw =
     (case bind_args (tool_name t) (tool_params t) kw of
        Inl f \<Rightarrow> ([], Inl f)
      | Inr vs \<Rightarrow> apply_tool client t vs)"

text \<open>What is read off the effects of an invocation.\<close>

fun is_log :: "effect \<Rightarrow> bool" where
  "is_log (Log l m) = True"
| "is_log (ClientCall c) = False"

fun client_calls :: "effect list \<Rightarrow> client_call list" where
  "client_calls [] = []"
| "client_calls (Log l m # effs) = client_calls effs"
| "client_calls (ClientCall c # effs) = c # client_calls effs"

text \<open>The log lines written before the first client call, and those written after it.\<close>

fun logs_before_call :: "effect list \<Rightarrow> string list" where
  "logs_before_call [] = []"
| "logs_before_call (Log l m # effs) = m # logs_before_call effs"
| "logs_before_call (ClientCall c # effs) = []"

fun logs_after_call :: "effect list \<Rightarrow> string list" where
  "logs_after_call [] = []"
| "logs_after_call (Log l m # effs) = logs_after_call effs"
| "logs_after_call (ClientCall c # effs) = map (\<lambda>e. case e of Log l m \<Rightarrow> m | ClientCall c \<Rightarrow> []) (filter is_log effs)"

text \<open>Client stubs: one whose every method returns a fixed value, one whose every method
  raises a fixed fault.\<close>

definition stub_returning :: "pyval \<Rightarrow> client" where
  "stub_returning v = (\<lambda>c. Inr v)"

definition stub_raising :: "fault \<Rightarrow> client" where
  "stub_raising f = (\<lambda>c. Inl f)"

section \<open>Start of the process\<close>

text \<open>
  The module, executed from top to bottom: the log directory and the logging handler,
  the server object, the offline token read from the environment, the client built from
  it, the registration of the tools, and at last the server run over SSE. The
  construction of the client and the run of the server are external: the first may raise
  a fault, the second returns, is interrupted from the keyboard or raises a fault. The
  result is the fault that ends the process, if one does.
\<close>

definition API_URL :: string where
  "API_URL = ''https://api.openshift.com''"

definition DEBUG_MODE :: bool where
  "DEBUG_MODE = True"

datatype run_result = RunReturns | RunInterrupted | RunCrashed fault

datatype startup_event =
    MakeLogDir string
  | ConfigureLogging
  | CreateServer string string nat
  | ConstructClient string string bool
  | StartupLog level string
  | RegisterTool string
  | RunServer string

fun is_construct :: "startup_event \<Rightarrow> bool" where
  "is_construct (ConstructClient url token dbg) = True"
| "is_construct e = False"

fun is_register :: "startup_event \<Rightarrow> bool" where
  "is_register (RegisterTool n) = True"
| "is_register e = False"

fun is_run :: "startup_event \<Rightarrow> bool" where
  "is_run (RunServer transport) = True"
| "is_run e = False"

definition startup ::
  "(string \<rightharpoonup> string) \<Rightarrow> (string \<Rightarrow> string \<Rightarrow> bool \<Rightarrow> fault option) \<Rightarrow> run_result
     \<Rightarrow> startup_event list \<times> fault option" where
  "startup getenv new_client run =
     (let init = [MakeLogDir ''logs'', ConfigureLogging, CreateServer ''Assisted'' ''127.0.0.1'' 8070];
          not_set = OtherException ''ValueError'' ''OFFLINE_TOKEN environment variable is not set''
      in case getenv ''OFFLINE_TOKEN'' of
           None \<Rightarrow> (init, Some not_set)
         | Some offlinetoken \<Rightarrow>
             if offlinetoken = [] then (init, Some not_set)
             else (case new_client API_URL offlinetoken DEBUG_MODE of
                     Some e \<Rightarrow>
                       (init @ [ConstructClient API_URL offlinetoken DEBUG_MODE,
                                StartupLog ERROR (''Failed to initialize AssistedClient: '' @ fault_message e)],
                        Some e)
                   | None \<Rightarrow>
                       (let ready = init @ [ConstructClient API_URL offlinetoken DEBUG_MODE,
                                            StartupLog INFO ''Successfully initialized AssistedClient'']
                                      @ map (\<lambda>t. RegisterTool (tool_name t)) registered_tools
                                      @ [StartupLog INFO ''Starting MCP server...'', RunServer ''sse'']
                        in case run of
                             RunReturns \<Rightarrow> (ready, None)
                           | RunInterrupted \<Rightarrow> (ready @ [StartupLog INFO ''Server stopped by user''], None)
                           | RunCrashed e \<Rightarrow>
                               (ready @ [StartupLog ERROR (''Server crashed with error: '' @ fault_message e)],
                                Some e))))"

text \<open>Two environments, one where the token is set to the empty string and one where it
  has a value, and a client constructor that succeeds.\<close>

definition env_empty_token :: "string \<rightharpoonup> string" where
  "env_empty_token = [''OFFLINE_TOKEN'' \<mapsto> '''']"

definition env_with_token :: "string \<rightharpoonup> string" where
  "env_with_token = [''OFFLINE_TOKEN'' \<mapsto> ''secret'']"

definition new_client_ok :: "string \<Rightarrow> string \<Rightarrow> bool \<Rightarrow> fault option" where
  "new_client_ok url token dbg = None"

section \<open>Structure of an invocation\<close>

text \<open>
  Every invocation has one of three shapes: the binding of the arguments fails and
  nothing happens; \<^verbatim>\<open>create_cluster\<close> fails to build its dictionary after its own log
  line; or the tool writes its log line and hands one call to \<^verbatim>\<open>handle_api_call\<close>.
\<close>

lemma those_length: "those xs = Some vs \<Longrightarrow> length vs = length xs"
  by (induction xs arbitrary: vs) (auto split: option.splits)

lemma bind_args_length: "bind_args n ps kw = Inr vs \<Longrightarrow> length vs = length ps"
  unfolding bind_args_def
  by (auto split: list.splits option.splits dest: those_length)

lemma handle_api_call_effects:
  "\<exists>l m. fst (handle_api_call client f a k) =
     [Log INFO (''Calling '' @ f @ '' with args: '' @ repr_tuple a @ '', kwargs: '' @ repr_kwargs k),
      ClientCall (Call f a k), Log l m]"
  unfolding handle_api_call_def
  by (auto simp: Let_def split: sum.splits fault.splits)

lemma handle_api_call_result:
  "snd (handle_api_call client f a k) =
     Inr (case client (Call f a k) of
            Inr v \<Rightarrow> py_str v
          | Inl (AsyncioTimeout m) \<Rightarrow> ''Operation timed out''
          | Inl (OtherException cls m) \<Rightarrow> ''Unexpected error in '' @ f @ '': '' @ m)"
  unfolding handle_api_call_def
  by (auto simp: Let_def split: sum.splits fault.splits)

lemma logger_info_fst: "fst (logger_info m out) = Log INFO m # fst out"
  by (cases out) simp

lemma logger_info_snd: "snd (logger_info m out) = snd out"
  by (cases out) simp

lemma len1: "length vs = Suc 0 \<Longrightarrow> \<exists>a. vs = [a]"
  by (cases vs) auto

lemma call_tool_cases:
  "(\<exists>f. call_tool client t kw = ([], Inl f))
   \<or> (\<exists>m f. t = CreateCluster \<and> call_tool client t kw = ([Log INFO m], Inl f))
   \<or> (\<exists>m a k. call_tool client t kw = logger_info m (handle_api_call client (client_method t) a k))"
proof (cases "bind_args (tool_name t) (tool_params t) kw")
  case (Inl f)
  then show ?thesis by (simp add: call_tool_def)
next
  case (Inr vs)
  then have len: "length vs = length (tool_params t)" by (rule bind_args_length)
  show ?thesis
  proof (cases t)
    case ListClusters
    with len Inr show ?thesis by (auto simp: call_tool_def list_clusters_def)
  next
    case ListEvents
    with len obtain a where "vs = [a]" by (auto dest: len1)
    with ListEvents Inr show ?thesis by (auto simp: call_tool_def list_events_def)
  next
    case ListManifests
    with len obtain a where "vs = [a]" by (auto dest: len1)
    with ListManifests Inr show ?thesis by (auto simp: call_tool_def list_manifests_def)
  next
    case CreateCluster
    with len obtain a b c d e f g where vs: "vs = [a, b, c, d, e, f, g]"
      by (auto simp: length_Suc_conv)
    show ?thesis
    proof (cases "py_dict a [(''base_dns_domain'', d), (''openshift_version'', c), (''high_availability_mode'', b)]")
      case (Inl x)
      with CreateCluster Inr vs show ?thesis by (simp add: call_tool_def create_cluster_def)
    next
      case (Inr ov)
      with CreateCluster \<open>bind_args (tool_name t) (tool_params t) kw = Inr vs\<close> vs
      have "call_tool client t kw = logger_info (''Creating cluster: '' @ py_str a
         @ '', base_dns_domain: '' @ py_str d
         @ '', version: '' @ py_str c
         @ '', high_availability_mode: '' @ py_str b) (handle_api_call client (client_method t) [] [(''overrides'', ov)])"
        by (simp add: call_tool_def create_cluster_def)
      then show ?thesis by blast
    qed
  next
    case DeleteCluster
    with len obtain a where "vs = [a]" by (auto dest: len1)
    with DeleteCluster Inr show ?thesis by (auto simp: call_tool_def delete_cluster_def)
  next
    case ClusterInfo
    with len obtain a where "vs = [a]" by (auto dest: len1)
    with ClusterInfo Inr show ?thesis by (auto simp: call_tool_def cluster_info_def)
  next
    case UpdateCluster
    with len obtain a where "vs = [a]" by (auto dest: len1)
    with UpdateCluster Inr show ?thesis by (auto simp: call_tool_def update_cluster_def)
  next
    case CreateManifests
    with len obtain a b c where "vs = [a, b, c]" by (auto simp: length_Suc_conv)
    with CreateManifests Inr show ?thesis by (auto simp: call_tool_def create_manifests_def)
  next
    case DeleteManifests
    with len obtain a where "vs = [a]" by (auto dest: len1)
    with DeleteManifests Inr show ?thesis by (auto simp: call_tool_def delete_manifests_def)
  qed
qed

lemma handle_api_call_effects_exact:
  "fst (handle_api_call client f a k) =
     [Log INFO (''Calling '' @ f @ '' with args: '' @ repr_tuple a @ '', kwargs: '' @ repr_kwargs k),
      ClientCall (Call f a k),
      (case client (Call f a k) of
         Inr v \<Rightarrow> Log INFO (''result is: '' @ py_str v)
       | Inl (AsyncioTimeout m) \<Rightarrow> Log ERROR ''Operation timed out''
       | Inl (OtherException cls m) \<Rightarrow> Log ERROR (''Unexpected error in '' @ f @ '': '' @ m))]"
  unfolding handle_api_call_def
  by (auto simp: Let_def split: sum.splits fault.splits)

lemma reached_call:
  assumes "ClientCall c \<in> set (fst (call_tool client t kw))"
  shows "\<exists>m. call_tool client t kw = logger_info m (handle_api_call client (client_method t) (call_args c) (call_kwargs c))
     \<and> c = Call (client_method t) (call_args c) (call_kwargs c)"
proof -
  from call_tool_cases [of client t kw] assms
  obtain m a k where ct: "call_tool client t kw = logger_info m (handle_api_call client (client_method t) a k)"
    by auto
  from handle_api_call_effects [of client "client_method t" a k]
  obtain l r where "fst (handle_api_call client (client_method t) a k) =
     [Log INFO (''Calling '' @ client_method t @ '' with args: '' @ repr_tuple a @ '', kwargs: '' @ repr_kwargs k),
      ClientCall (Call (client_method t) a k), Log l r]" by blast
  with assms ct have "c = Call (client_method t) a k"
    by (simp add: logger_info_fst)
  with ct show ?thesis by auto
qed

lemma starts_with_append: "starts_with (p @ s) p"
  by (induction p) simp_all

lemma substring_of_prefix: "starts_with s p \<Longrightarrow> substring p s"
  by (cases s) (auto elim: starts_with.elims)

lemma substring_prepend: "substring p s \<Longrightarrow> substring p (a @ s)"
  by (induction a) simp_all

lemma substring_middle: "substring p (a @ p @ b)"
  by (rule substring_prepend, rule substring_of_prefix, rule starts_with_append)

section \<open>Every invocation gives a text\<close>

text \<open>
  Once its arguments are bound, every tool but \<^verbatim>\<open>create_cluster\<close> returns a string,
  whatever the client does; \<^verbatim>\<open>create_cluster\<close> does so when its dictionary can be
  built.
\<close>

lemma other_tools_return_text:
  assumes "t \<noteq> CreateCluster" and "bind_args (tool_name t) (tool_params t) kw = Inr vs"
  shows "\<exists>text. snd (call_tool client t kw) = Inr text"
proof -
  from assms(2) have len: "length vs = length (tool_params t)" by (rule bind_args_length)
  from call_tool_cases [of client t kw]
  consider f where "call_tool client t kw = ([], Inl f)"
    | m a k where "call_tool client t kw = logger_info m (handle_api_call client (client_method t) a k)"
    using assms(1) by blast
  then show ?thesis
  proof cases
    case 1
    with assms len show ?thesis
      by (cases t)
         (auto simp: call_tool_def list_clusters_def list_events_def list_manifests_def
            delete_cluster_def cluster_info_def update_cluster_def create_manifests_def
            delete_manifests_def logger_info_fst length_Suc_conv
            dest!: arg_cong [where f = fst])
  next
    case 2
    then show ?thesis by (simp add: logger_info_snd handle_api_call_result)
  qed
qed

lemma create_cluster_returns_text_when_dict_succeeds:
  assumes "py_dict cluster_name
             [(''base_dns_domain'', base_dns_domain), (''openshift_version'', openshift_version),
              (''high_availability_mode'', high_availability_mode)] = Inr overrides"
  shows "\<exists>text. snd (create_cluster client cluster_name high_availability_mode openshift_version
            base_dns_domain cluster_network_cidr pull_secret ssh_public_key) = Inr text"
  using assms by (simp add: create_cluster_def logger_info_snd handle_api_call_result)

text \<open>
  C1. Every invocation of every registered operation returns one string and raises no
  fault, also when the fault arises while the arguments are marshalled. The code does
  not do this for \<^verbatim>\<open>create_cluster\<close>: called with the cluster name \<^verbatim>\<open>"foo"\<close>, it
  evaluates \<^verbatim>\<open>dict("foo", ...)\<close> before \<^verbatim>\<open>handle_api_call\<close> is entered, and the
  \<^verbatim>\<open>ValueError\<close> of \<^verbatim>\<open>dict\<close> leaves the tool after its first log line, with no call
  to the client.
\<close>

theorem create_cluster_marshalling_fault:
  "call_tool (stub_returning (PStr ''ok'')) CreateCluster [(''cluster_name'', PStr ''foo'')]
     = ([Log INFO ''Creating cluster: foo, base_dns_domain: None, version: None, high_availability_mode: Full''],
        Inl (OtherException ''ValueError''
               ''dictionary update sequence element #0 has length 1; 2 is required''))"
  by code_simp

section \<open>Results of the client\<close>

text \<open>
  C2. For every registered operation, when the call made to the client returns a value,
  the result of the operation is the \<^verbatim>\<open>str\<close> of that value, unchanged.
\<close>

theorem success_is_str_of_result:
  assumes "ClientCall c \<in> set (fst (call_tool client t kw))"
    and "client c = Inr v"
  shows "snd (call_tool client t kw) = Inr (py_str v)"
proof -
  from reached_call [OF assms(1)] obtain m where
    ct: "call_tool client t kw = logger_info m (handle_api_call client (client_method t) (call_args c) (call_kwargs c))"
    and c: "c = Call (client_method t) (call_args c) (call_kwargs c)" by blast
  from c assms(2) have "client (Call (client_method t) (call_args c) (call_kwargs c)) = Inr v" by simp
  then show ?thesis by (simp add: ct logger_info_snd handle_api_call_result)
qed

theorem success_is_str_of_result_witness:
  "ClientCall (Call ''list_clusters'' [] [])
     \<in> set (fst (call_tool (stub_returning (PList [PStr ''a'', PStr ''b''])) ListClusters []))
   \<and> stub_returning (PList [PStr ''a'', PStr ''b'']) (Call ''list_clusters'' [] []) = Inr (PList [PStr ''a'', PStr ''b''])
   \<and> snd (call_tool (stub_returning (PList [PStr ''a'', PStr ''b''])) ListClusters []) = Inr ''['a', 'b']''"
proof -
  have h1: "ClientCall (Call ''list_clusters'' [] [])
     \<in> set (fst (call_tool (stub_returning (PList [PStr ''a'', PStr ''b''])) ListClusters []))"
    by (simp add: call_tool_def bind_args_def list_clusters_def handle_api_call_def stub_returning_def)
  have h2: "stub_returning (PList [PStr ''a'', PStr ''b'']) (Call ''list_clusters'' [] []) = Inr (PList [PStr ''a'', PStr ''b''])"
    by (simp add: stub_returning_def)
  have h3: "py_str (PList [PStr ''a'', PStr ''b'']) = ''['a', 'b']''"
    by code_simp
  from success_is_str_of_result [OF h1 h2] h1 h2 h3 show ?thesis by simp
qed

section \<open>Faults of the client\<close>

text \<open>
  C3, as stated: when the client raises any fault, a timeout included, the result holds
  the name of the operation and the message of the fault. For \<^verbatim>\<open>cluster_info\<close> a timeout
  gives the fixed text \<^verbatim>\<open>Operation timed out\<close>, with neither of them, and another fault
  gives a text that names the client's method \<^verbatim>\<open>get_cluster\<close>, not the operation.
\<close>

theorem fault_counterexample:
  "snd (call_tool (stub_raising (AsyncioTimeout ''slow'')) ClusterInfo [(''cluster_name'', PStr ''c1'')])
     = Inr ''Operation timed out''
   \<and> \<not> substring ''cluster_info'' ''Operation timed out''
   \<and> \<not> substring ''slow'' ''Operation timed out''
   \<and> snd (call_tool (stub_raising (OtherException ''NotFound'' ''missing'')) ClusterInfo [(''cluster_name'', PStr ''c1'')])
     = Inr ''Unexpected error in get_cluster: missing''
   \<and> \<not> substring ''cluster_info'' ''Unexpected error in get_cluster: missing''"
  by (simp add: call_tool_def bind_args_def cluster_info_def handle_api_call_def stub_raising_def)

text \<open>
  C3, amended. For every registered operation, when the call made to the client raises a
  fault that is no timeout, the result is the string
  \<^verbatim>\<open>Unexpected error in <method>: <message>\<close>, which holds the name of the client's
  method (the name of the operation itself, except \<^verbatim>\<open>get_cluster\<close> for
  \<^verbatim>\<open>cluster_info\<close> and \<^verbatim>\<open>upload_manifests\<close> for \<^verbatim>\<open>create_manifests\<close>) and the message of
  the fault; when it raises a timeout, the result is the string \<^verbatim>\<open>Operation timed out\<close>.
  In both cases the invocation returns and the fault does not reach the caller.
\<close>

theorem fault_becomes_text:
  assumes "ClientCall c \<in> set (fst (call_tool client t kw))"
    and "client c = Inl f"
  shows "call_method c = client_method t
    \<and> client_method t = (if t = ClusterInfo then ''get_cluster''
                          else if t = CreateManifests then ''upload_manifests'' else tool_name t)
    \<and> (case f of
          AsyncioTimeout m \<Rightarrow> snd (call_tool client t kw) = Inr ''Operation timed out''
        | OtherException cls m \<Rightarrow>
            snd (call_tool client t kw) = Inr (''Unexpected error in '' @ client_method t @ '': '' @ m)
            \<and> substring (client_method t) (''Unexpected error in '' @ client_method t @ '': '' @ m)
            \<and> substring m (''Unexpected error in '' @ client_method t @ '': '' @ m))"
proof -
  from reached_call [OF assms(1)] obtain m0 where
    ct: "call_tool client t kw = logger_info m0 (handle_api_call client (client_method t) (call_args c) (call_kwargs c))"
    and c: "c = Call (client_method t) (call_args c) (call_kwargs c)" by blast
  from c have cm: "call_method c = client_method t"
    by (metis client_call.sel(1))
  have tbl: "client_method t = (if t = ClusterInfo then ''get_cluster''
                          else if t = CreateManifests then ''upload_manifests'' else tool_name t)"
    by (cases t) simp_all
  from c assms(2) have cl: "client (Call (client_method t) (call_args c) (call_kwargs c)) = Inl f" by simp
  have res: "snd (call_tool client t kw) = Inr (case f of AsyncioTimeout m \<Rightarrow> ''Operation timed out''
       | OtherException cls m \<Rightarrow> ''Unexpected error in '' @ client_method t @ '': '' @ m)"
    by (simp add: ct logger_info_snd handle_api_call_result cl)
  have sub1: "\<And>m. substring (client_method t) (''Unexpected error in '' @ client_method t @ '': '' @ m)"
    by (rule substring_middle)
  have sub2: "\<And>m. substring m (''Unexpected error in '' @ client_method t @ '': '' @ m)"
    using substring_middle [of _ "''Unexpected error in '' @ client_method t @ '': ''" "[]"] by simp
  show ?thesis
    using cm tbl res sub1 sub2 by (cases f) simp_all
qed

theorem fault_becomes_text_witness:
  "ClientCall (Call ''delete_cluster'' [PStr ''foo''] [])
     \<in> set (fst (call_tool (stub_raising (OtherException ''NotFound'' ''foo'')) DeleteCluster [(''cluster_name'', PStr ''foo'')]))
   \<and> stub_raising (OtherException ''NotFound'' ''foo'') (Call ''delete_cluster'' [PStr ''foo''] [])
       = Inl (OtherException ''NotFound'' ''foo'')
   \<and> snd (call_tool (stub_raising (OtherException ''NotFound'' ''foo'')) DeleteCluster [(''cluster_name'', PStr ''foo'')])
       = Inr ''Unexpected error in delete_cluster: foo''
   \<and> substring ''delete_cluster'' ''Unexpected error in delete_cluster: foo''
   \<and> substring ''foo'' ''Unexpected error in delete_cluster: foo''"
proof -
  have h1: "ClientCall (Call ''delete_cluster'' [PStr ''foo''] [])
     \<in> set (fst (call_tool (stub_raising (OtherException ''NotFound'' ''foo'')) DeleteCluster [(''cluster_name'', PStr ''foo'')]))"
    by (simp add: call_tool_def bind_args_def delete_cluster_def handle_api_call_def stub_raising_def)
  have h2: "stub_raising (OtherException ''NotFound'' ''foo'') (Call ''delete_cluster'' [PStr ''foo''] [])
       = Inl (OtherException ''NotFound'' ''foo'')"
    by (simp add: stub_raising_def)
  from fault_becomes_text [OF h1 h2] h1 h2 show ?thesis by simp
qed

section \<open>Arguments forwarded by \<^verbatim>\<open>create_manifests\<close>\<close>

text \<open>
  C4. \<^verbatim>\<open>create_manifests\<close> forwards the \<^verbatim>\<open>openshift\<close> value of its caller to
  \<^verbatim>\<open>upload_manifests\<close>. The code does not: called with \<^verbatim>\<open>openshift=True\<close>, it forwards
  \<^verbatim>\<open>openshift=False\<close>.
\<close>

theorem create_manifests_drops_openshift:
  "client_calls (fst (call_tool (stub_returning PNone) CreateManifests
       [(''cluster_name'', PStr ''c1''), (''directory'', PStr ''/manifests''), (''openshift'', PBool True)]))
     = [Call ''upload_manifests'' [PStr ''c1'', PStr ''/manifests''] [(''openshift'', PBool False)]]"
  by (simp add: call_tool_def bind_args_def create_manifests_def handle_api_call_def stub_returning_def)

section \<open>The offline token at startup\<close>

text \<open>
  C5, as stated: when \<^verbatim>\<open>OFFLINE_TOKEN\<close> is unset the process fails before it serves, and
  when it is set the startup goes on to build the client. With the variable set to the
  empty string the check \<^verbatim>\<open>if not offlinetoken\<close> raises as well, and no client is built.
\<close>

theorem startup_counterexample:
  "env_empty_token ''OFFLINE_TOKEN'' = Some ''''
   \<and> startup env_empty_token new_client_ok RunReturns
     = ([MakeLogDir ''logs'', ConfigureLogging, CreateServer ''Assisted'' ''127.0.0.1'' 8070],
        Some (OtherException ''ValueError'' ''OFFLINE_TOKEN environment variable is not set''))
   \<and> \<not> list_ex is_construct (fst (startup env_empty_token new_client_ok RunReturns))"
  by (simp add: startup_def env_empty_token_def)

text \<open>
  C5, amended. If \<^verbatim>\<open>OFFLINE_TOKEN\<close> is unset or set to the empty string, the startup
  raises \<^verbatim>\<open>ValueError\<close> before the client is built, before any tool is registered and
  before the server runs, so no operation can be invoked; if it is set to a non-empty
  value, the startup goes on to build the client with that token.
\<close>

theorem startup_token_check:
  "(getenv ''OFFLINE_TOKEN'' = None \<or> getenv ''OFFLINE_TOKEN'' = Some [] \<longrightarrow>
      snd (startup getenv new_client run)
        = Some (OtherException ''ValueError'' ''OFFLINE_TOKEN environment variable is not set'')
      \<and> \<not> list_ex is_construct (fst (startup getenv new_client run))
      \<and> \<not> list_ex is_register (fst (startup getenv new_client run))
      \<and> \<not> list_ex is_run (fst (startup getenv new_client run)))
   \<and> (getenv ''OFFLINE_TOKEN'' = Some token \<and> token \<noteq> [] \<longrightarrow>
      ConstructClient API_URL token DEBUG_MODE \<in> set (fst (startup getenv new_client run)))"
  by (auto simp: startup_def Let_def split: option.splits run_result.splits)

theorem startup_token_check_witness:
  "Map.empty ''OFFLINE_TOKEN'' = None
   \<and> snd (startup Map.empty new_client_ok RunReturns)
        = Some (OtherException ''ValueError'' ''OFFLINE_TOKEN environment variable is not set'')
   \<and> \<not> list_ex is_run (fst (startup Map.empty new_client_ok RunReturns))
   \<and> env_with_token ''OFFLINE_TOKEN'' = Some ''secret''
   \<and> ConstructClient API_URL ''secret'' DEBUG_MODE \<in> set (fst (startup env_with_token new_client_ok RunReturns))"
proof -
  have h1: "(Map.empty :: string \<rightharpoonup> string) ''OFFLINE_TOKEN'' = None" by simp
  have h2: "env_with_token ''OFFLINE_TOKEN'' = Some ''secret'' \<and> ''secret'' \<noteq> []"
    by (simp add: env_with_token_def)
  from startup_token_check [where getenv = Map.empty and new_client = new_client_ok and run = RunReturns] h1
    startup_token_check [where getenv = env_with_token and token = "''secret''"
      and new_client = new_client_ok and run = RunReturns] h2
  show ?thesis by simp
qed

section \<open>Defaults of the parameters\<close>

lemma tool_params_distinct: "distinct (map param_name (tool_params t))"
  by (cases t) simp_all

lemma param_by_name:
  assumes "distinct (map param_name ps)" and "Param p dflt \<in> set ps" and "q \<in> set ps"
    and "param_name q = p"
  shows "q = Param p dflt"
proof -
  from assms(1) have inj: "inj_on param_name (set ps)" by (simp add: distinct_map)
  have "param_name q = param_name (Param p dflt)" using assms(4) by simp
  from inj_onD [OF inj this assms(3) assms(2)] show ?thesis .
qed

lemma bind_args_default:
  assumes dist: "distinct (map param_name ps)"
    and mem: "Param p (Some d) \<in> set ps"
    and fresh: "p \<notin> fst ` set kw"
  shows "bind_args n ps ((p, d) # kw) = bind_args n ps kw"
proof -
  from mem have pin: "p \<in> set (map param_name ps)" by force
  from fresh have none: "map_of kw p = None" by (simp add: map_of_eq_None_iff)
  have unexpected: "filter (\<lambda>k. k \<notin> set (map param_name ps)) (map fst ((p, d) # kw))
      = filter (\<lambda>k. k \<notin> set (map param_name ps)) (map fst kw)"
    using pin by simp
  have each: "(case map_of ((p, d) # kw) (param_name q) of Some v \<Rightarrow> Some v | None \<Rightarrow> param_default q)
      = (case map_of kw (param_name q) of Some v \<Rightarrow> Some v | None \<Rightarrow> param_default q)"
    if "q \<in> set ps" for q
  proof (cases "param_name q = p")
    case True
    with dist mem that have "q = Param p (Some d)" by (rule_tac param_by_name) auto
    with none show ?thesis by simp
  next
    case False
    then show ?thesis by simp
  qed
  then have vals: "map (\<lambda>q. case map_of ((p, d) # kw) (param_name q) of Some v \<Rightarrow> Some v | None \<Rightarrow> param_default q) ps
      = map (\<lambda>q. case map_of kw (param_name q) of Some v \<Rightarrow> Some v | None \<Rightarrow> param_default q) ps"
    by simp
  have miss1: "(map_of ((p, d) # kw) (param_name q) = None \<and> param_default q = None)
      = (map_of kw (param_name q) = None \<and> param_default q = None)" if "q \<in> set ps" for q
  proof (cases "param_name q = p")
    case True
    with dist mem that have "q = Param p (Some d)" by (rule_tac param_by_name) auto
    then show ?thesis by simp
  next
    case False
    then show ?thesis by simp
  qed
  then have miss: "filter (\<lambda>q. map_of ((p, d) # kw) (param_name q) = None \<and> param_default q = None) ps
      = filter (\<lambda>q. map_of kw (param_name q) = None \<and> param_default q = None) ps"
    by (simp cong: filter_cong)
  show ?thesis
    unfolding bind_args_def unexpected vals miss ..
qed

text \<open>
  C7. The defaults are those of the signatures: an invocation of \<^verbatim>\<open>create_cluster\<close>
  that gives no argument binds \<^verbatim>\<open>high_availability_mode\<close> to \<^verbatim>\<open>'Full'\<close>,
  \<^verbatim>\<open>cluster_network_cidr\<close> to \<^verbatim>\<open>'10.128.0.0/14'\<close> and the optional parameters to
  \<^verbatim>\<open>None\<close>; an invocation of \<^verbatim>\<open>create_manifests\<close> without \<^verbatim>\<open>openshift\<close> binds it
  to \<^verbatim>\<open>False\<close>; and for every tool, leaving out a parameter that has a default is the
  same as giving the default.
\<close>

theorem parameter_defaults:
  "bind_args (tool_name CreateCluster) (tool_params CreateCluster) []
     = Inr [PNone, PStr ''Full'', PNone, PNone, PStr ''10.128.0.0/14'', PNone, PNone]
   \<and> bind_args (tool_name CreateManifests) (tool_params CreateManifests)
       [(''cluster_name'', cluster_name), (''directory'', directory)]
     = Inr [cluster_name, directory, PBool False]
   \<and> (Param p (Some d) \<in> set (tool_params t) \<and> p \<notin> fst ` set kw \<longrightarrow>
        call_tool client t ((p, d) # kw) = call_tool client t kw)"
proof -
  have a: "bind_args (tool_name CreateCluster) (tool_params CreateCluster) []
     = Inr [PNone, PStr ''Full'', PNone, PNone, PStr ''10.128.0.0/14'', PNone, PNone]"
    by (simp add: bind_args_def)
  have b: "bind_args (tool_name CreateManifests) (tool_params CreateManifests)
       [(''cluster_name'', cluster_name), (''directory'', directory)]
     = Inr [cluster_name, directory, PBool False]"
    by (simp add: bind_args_def)
  have c: "call_tool client t ((p, d) # kw) = call_tool client t kw"
    if "Param p (Some d) \<in> set (tool_params t)" and "p \<notin> fst ` set kw"
    using bind_args_default [OF tool_params_distinct that] by (simp add: call_tool_def)
  from a b c show ?thesis by blast
qed

theorem parameter_defaults_witness:
  "Param ''openshift'' (Some (PBool False)) \<in> set (tool_params CreateManifests)
   \<and> ''openshift'' \<notin> fst ` set [(''cluster_name'', PStr ''c1''), (''directory'', PStr ''/manifests'')]
   \<and> call_tool (stub_returning PNone) CreateManifests
         [(''openshift'', PBool False), (''cluster_name'', PStr ''c1''), (''directory'', PStr ''/manifests'')]
       = call_tool (stub_returning PNone) CreateManifests
         [(''cluster_name'', PStr ''c1''), (''directory'', PStr ''/manifests'')]"
proof -
  have h: "Param ''openshift'' (Some (PBool False)) \<in> set (tool_params CreateManifests)
     \<and> ''openshift'' \<notin> fst ` set [(''cluster_name'', PStr ''c1''), (''directory'', PStr ''/manifests'')]"
    by simp
  from parameter_defaults [where p = "''openshift''" and d = "PBool False" and t = CreateManifests
      and kw = "[(''cluster_name'', PStr ''c1''), (''directory'', PStr ''/manifests'')]"
      and client = "stub_returning PNone"] h
  show ?thesis by blast
qed

section \<open>Registered operations\<close>

text \<open>
  C8. Nine operations are registered, one for each capability, and their names are
  pairwise distinct.
\<close>

theorem registered_names_unique:
  "length registered_tools = 9
   \<and> distinct (map tool_name registered_tools)
   \<and> map tool_name registered_tools =
       [''list_clusters'', ''list_events'', ''list_manifests'', ''create_cluster'', ''delete_cluster'',
        ''cluster_info'', ''update_cluster'', ''create_manifests'', ''delete_manifests'']"
  by (simp add: registered_tools_def)

section \<open>Log lines of an invocation\<close>

text \<open>
  C9, as stated: besides the client call, an invocation writes one log line before the
  call and one after it. \<^verbatim>\<open>list_events\<close> writes two lines before the call: its own and
  the one of \<^verbatim>\<open>handle_api_call\<close>.
\<close>

theorem log_lines_counterexample:
  "logs_before_call (fst (call_tool (stub_returning PNone) ListEvents [(''cluster_name'', PStr ''c1'')]))
     = [''Listing events for cluster: c1'', ''Calling list_events with args: ('c1',), kwargs: {}'']
   \<and> length (logs_before_call (fst (call_tool (stub_returning PNone) ListEvents [(''cluster_name'', PStr ''c1'')]))) \<noteq> 1"
  by (simp add: call_tool_def bind_args_def list_events_def handle_api_call_def stub_returning_def
      repr_kwargs_def repr_str_def escape_char_def printable_def Let_def)

text \<open>
  C9, amended. For every invocation of a registered operation that reaches its client
  call, the effects are, in this order: the log line of the tool, the log line of
  \<^verbatim>\<open>handle_api_call\<close> with the client's method and the arguments, the one client call,
  and one log line with the result or the error. So two log lines come before the call
  and one after it, and there is nothing else.
\<close>

theorem log_lines_of_invocation:
  assumes "ClientCall c \<in> set (fst (call_tool client t kw))"
  shows "(\<exists>m0. fst (call_tool client t kw) =
       [Log INFO m0,
        Log INFO (''Calling '' @ client_method t @ '' with args: '' @ repr_tuple (call_args c)
                    @ '', kwargs: '' @ repr_kwargs (call_kwargs c)),
        ClientCall c,
        (case client c of
           Inr v \<Rightarrow> Log INFO (''result is: '' @ py_str v)
         | Inl (AsyncioTimeout m) \<Rightarrow> Log ERROR ''Operation timed out''
         | Inl (OtherException cls m) \<Rightarrow>
             Log ERROR (''Unexpected error in '' @ client_method t @ '': '' @ m))])
    \<and> length (logs_before_call (fst (call_tool client t kw))) = 2
    \<and> length (logs_after_call (fst (call_tool client t kw))) = 1
    \<and> client_calls (fst (call_tool client t kw)) = [c]"
proof -
  from reached_call [OF assms] obtain m0 where
    ct: "call_tool client t kw = logger_info m0 (handle_api_call client (client_method t) (call_args c) (call_kwargs c))"
    and c: "c = Call (client_method t) (call_args c) (call_kwargs c)" by blast
  define final where "final = (case client c of
           Inr v \<Rightarrow> Log INFO (''result is: '' @ py_str v)
         | Inl (AsyncioTimeout m) \<Rightarrow> Log ERROR ''Operation timed out''
         | Inl (OtherException cls m) \<Rightarrow>
             Log ERROR (''Unexpected error in '' @ client_method t @ '': '' @ m))"
  have effs: "fst (call_tool client t kw) =
       [Log INFO m0,
        Log INFO (''Calling '' @ client_method t @ '' with args: '' @ repr_tuple (call_args c)
                    @ '', kwargs: '' @ repr_kwargs (call_kwargs c)),
        ClientCall c, final]"
    unfolding final_def using c by (simp add: ct logger_info_fst handle_api_call_effects_exact)
  have "\<exists>l m. final = Log l m"
    unfolding final_def by (auto split: sum.splits fault.splits)
  then obtain l m where final: "final = Log l m" by blast
  have before: "length (logs_before_call (fst (call_tool client t kw))) = 2"
    by (simp add: effs final)
  have after: "length (logs_after_call (fst (call_tool client t kw))) = 1"
    by (simp add: effs final)
  have calls: "client_calls (fst (call_tool client t kw)) = [c]"
    by (simp add: effs final)
  from effs before after calls show ?thesis
    unfolding final_def by blast
qed

theorem log_lines_of_invocation_witness:
  "ClientCall (Call ''list_events'' [PStr ''c1''] [])
     \<in> set (fst (call_tool (stub_returning PNone) ListEvents [(''cluster_name'', PStr ''c1'')]))
   \<and> length (logs_before_call (fst (call_tool (stub_returning PNone) ListEvents [(''cluster_name'', PStr ''c1'')]))) = 2
   \<and> length (logs_after_call (fst (call_tool (stub_returning PNone) ListEvents [(''cluster_name'', PStr ''c1'')]))) = 1
   \<and> client_calls (fst (call_tool (stub_returning PNone) ListEvents [(''cluster_name'', PStr ''c1'')]))
       = [Call ''list_events'' [PStr ''c1''] []]"
proof -
  have h: "ClientCall (Call ''list_events'' [PStr ''c1''] [])
     \<in> set (fst (call_tool (stub_returning PNone) ListEvents [(''cluster_name'', PStr ''c1'')]))"
    by (simp add: call_tool_def bind_args_def list_events_def handle_api_call_def stub_returning_def)
  from log_lines_of_invocation [OF h] h show ?thesis by blast
qed

section \<open>Parameters that \<^verbatim>\<open>create_cluster\<close> does not use\<close>

text \<open>
  C10. Two invocations of \<^verbatim>\<open>create_cluster\<close> that differ only in
  \<^verbatim>\<open>cluster_network_cidr\<close>, \<^verbatim>\<open>pull_secret\<close> or \<^verbatim>\<open>ssh_public_key\<close> forward the same
  arguments to the client (whatever the client answers), and with the same client they
  have the same effects and result.
\<close>

theorem create_cluster_ignores_three_parameters:
  "create_cluster client cluster_name high_availability_mode openshift_version base_dns_domain
       cluster_network_cidr pull_secret ssh_public_key
     = create_cluster client cluster_name high_availability_mode openshift_version base_dns_domain
         cluster_network_cidr' pull_secret' ssh_public_key'
   \<and> client_calls (fst (create_cluster client cluster_name high_availability_mode openshift_version
         base_dns_domain cluster_network_cidr pull_secret ssh_public_key))
     = client_calls (fst (create_cluster client' cluster_name high_availability_mode openshift_version
         base_dns_domain cluster_network_cidr' pull_secret' ssh_public_key'))"
  by (auto simp: create_cluster_def handle_api_call_def Let_def split: sum.splits fault.splits)

end
